theory Spec2Isabelle
  imports Complex_Main
begin

section \<open>JavaScript values and the operations the client uses on them\<close>

text \<open>
  The client reads the RPC answer as untyped JSON (\<^verbatim>\<open>any\<close>), so the model keeps
  JavaScript values as they are at run time. A number is the parsed double; every
  operation the client applies to a number (truthiness, strict equality with
  \<^verbatim>\<open>-32600\<close>, copying) treats an infinite double like any other non-zero number,
  so a rational stands for it. An object is its table of own properties after
  \<^verbatim>\<open>JSON.parse\<close>.
\<close>

datatype jsval =
    JUndefined
  | JNull
  | JBool bool
  | JNum rat
  | JStr string
  | JArr "jsval list"
  | JObj "(string \<times> jsval) list"

datatype js_error =
    TypeError
  | SyntaxError
  | NetworkError
  | HttpError nat
  | Error jsval

text \<open>Truthiness, as \<^verbatim>\<open>if (v)\<close>, \<^verbatim>\<open>!v\<close>, \<^verbatim>\<open>v || w\<close> and \<^verbatim>\<open>v && w\<close> test it.\<close>

fun truthy :: "jsval \<Rightarrow> bool" where
  "truthy JUndefined = False"
| "truthy JNull = False"
| "truthy (JBool b) = b"
| "truthy (JNum n) = (n \<noteq> 0)"
| "truthy (JStr s) = (s \<noteq> [])"
| "truthy (JArr xs) = True"
| "truthy (JObj kvs) = True"

fun nullish :: "jsval \<Rightarrow> bool" where
  "nullish JUndefined = True"
| "nullish JNull = True"
| "nullish v = False"

text \<open>\<^verbatim>\<open>a || b\<close> on values.\<close>

definition js_or :: "jsval \<Rightarrow> jsval \<Rightarrow> jsval" where
  "js_or a b = (if truthy a then a else b)"

text \<open>
  \<^verbatim>\<open>v.k\<close>: reading a property of \<^verbatim>\<open>undefined\<close> or \<^verbatim>\<open>null\<close> throws a TypeError; an
  object gives its own property or \<^verbatim>\<open>undefined\<close>; a string, number, boolean or array
  gives \<^verbatim>\<open>undefined\<close> for every property name the client reads as data (none of them
  is an inherited one).
\<close>

fun getp :: "jsval \<Rightarrow> string \<Rightarrow> js_error + jsval" where
  "getp JUndefined k = Inl TypeError"
| "getp JNull k = Inl TypeError"
| "getp (JObj kvs) k = Inr (case map_of kvs k of None \<Rightarrow> JUndefined | Some v \<Rightarrow> v)"
| "getp v k = Inr JUndefined"

text \<open>\<^verbatim>\<open>v?.k\<close>: \<^verbatim>\<open>undefined\<close> when \<^verbatim>\<open>v\<close> is nullish, and it never throws.\<close>

fun optp :: "jsval \<Rightarrow> string \<Rightarrow> jsval" where
  "optp (JObj kvs) k = (case map_of kvs k of None \<Rightarrow> JUndefined | Some v \<Rightarrow> v)"
| "optp v k = JUndefined"

text \<open>Sequencing of computations that may throw.\<close>

definition bindE :: "js_error + 'a \<Rightarrow> ('a \<Rightarrow> js_error + 'b) \<Rightarrow> js_error + 'b" where
  "bindE m f = (case m of Inl e \<Rightarrow> Inl e | Inr v \<Rightarrow> f v)"

text \<open>\<^verbatim>\<open>String.prototype.includes\<close>: does \<^verbatim>\<open>s\<close> contain \<^verbatim>\<open>p\<close> as a substring.\<close>

fun str_includes :: "string \<Rightarrow> string \<Rightarrow> bool" where
  "str_includes [] p = (p = [])"
| "str_includes (c # cs) p = (take (length p) (c # cs) = p \<or> str_includes cs p)"

text \<open>
  \<^verbatim>\<open>v?.includes(p)\<close> with a string argument: skipped on a nullish receiver, the
  substring test on a string, the membership test on an array; on any other receiver
  \<^verbatim>\<open>includes\<close> is not a function and the call throws.
\<close>

fun opt_includes :: "jsval \<Rightarrow> string \<Rightarrow> js_error + jsval" where
  "opt_includes JUndefined p = Inr JUndefined"
| "opt_includes JNull p = Inr JUndefined"
| "opt_includes (JStr s) p = Inr (JBool (str_includes s p))"
| "opt_includes (JArr xs) p = Inr (JBool (JStr p \<in> set xs))"
| "opt_includes v p = Inl TypeError"

text \<open>
  \<^verbatim>\<open>v.map(f)\<close>: on an array the callback runs on the elements in order and the first
  throw ends the call; on a non-array \<^verbatim>\<open>map\<close> is not a function.
\<close>

fun mapE :: "('a \<Rightarrow> js_error + 'b) \<Rightarrow> 'a list \<Rightarrow> js_error + 'b list" where
  "mapE f [] = Inr []"
| "mapE f (x # xs) =
     (case f x of
        Inl e \<Rightarrow> Inl e
      | Inr y \<Rightarrow> (case mapE f xs of Inl e \<Rightarrow> Inl e | Inr ys \<Rightarrow> Inr (y # ys)))"

fun js_map :: "jsval \<Rightarrow> (jsval \<Rightarrow> js_error + 'b) \<Rightarrow> js_error + 'b list" where
  "js_map (JArr xs) f = mapE f xs"
| "js_map v f = Inl TypeError"

text \<open>\<^verbatim>\<open>v.find(f)\<close>: the first element whose callback value is truthy, else \<^verbatim>\<open>undefined\<close>.\<close>

fun findE :: "(jsval \<Rightarrow> js_error + jsval) \<Rightarrow> jsval list \<Rightarrow> js_error + jsval" where
  "findE f [] = Inr JUndefined"
| "findE f (x # xs) =
     (case f x of
        Inl e \<Rightarrow> Inl e
      | Inr b \<Rightarrow> if truthy b then Inr x else findE f xs)"

fun js_find :: "jsval \<Rightarrow> (jsval \<Rightarrow> js_error + jsval) \<Rightarrow> js_error + jsval" where
  "js_find (JArr xs) f = findE f xs"
| "js_find v f = Inl TypeError"

section \<open>The transport\<close>

text \<open>
  \<^verbatim>\<open>fetch\<close> either rejects (a network exception) or resolves to a response with a
  status and a body; \<^verbatim>\<open>response.json()\<close> rejects with a SyntaxError when the body is
  not JSON (\<open>None\<close>). The request body is kept as the value that is stringified.
\<close>

datatype response = Response (resp_status: nat) (resp_body: "jsval option")

definition ok :: "response \<Rightarrow> bool" where
  "ok r = (200 \<le> resp_status r \<and> resp_status r \<le> 299)"

definition json :: "response \<Rightarrow> js_error + jsval" where
  "json r = (case resp_body r of None \<Rightarrow> Inl SyntaxError | Some v \<Rightarrow> Inr v)"

type_synonym fetch = "string \<Rightarrow> jsval \<Rightarrow> js_error + response"

definition SOROBAN_RPC_URL :: string where
  "SOROBAN_RPC_URL = ''https://soroban-testnet.stellar.org''"

section \<open>transactionFetcher: the listing\<close>

record FetchTransactionsOptions =
  startLedger :: "rat option"
  cursor :: "string option"
  limit :: "rat option"

record TransactionMetadata =
  txHash :: jsval
  ledger :: jsval
  createdAt :: jsval
  status :: jsval
  applicationOrder :: jsval

text \<open>
  In a \<^verbatim>\<open>TransactionResponse\<close> an optional field that is left out of the object
  literal, or set to \<^verbatim>\<open>undefined\<close>, reads as \<^verbatim>\<open>undefined\<close>: \<open>JUndefined\<close> for the
  cursor, \<open>None\<close> for the notice.
\<close>

record TransactionResponse =
  transactions :: "TransactionMetadata list"
  latestLedger :: jsval
  oldestLedger :: jsval
  cursor :: jsval
  hasMore :: bool
  retentionNotice :: "string option"

definition num_or_undefined :: "rat option \<Rightarrow> jsval" where
  "num_or_undefined x = (case x of None \<Rightarrow> JUndefined | Some n \<Rightarrow> JNum n)"

definition str_or_undefined :: "string option \<Rightarrow> jsval" where
  "str_or_undefined x = (case x of None \<Rightarrow> JUndefined | Some s \<Rightarrow> JStr s)"

text \<open>The request body of \<^verbatim>\<open>fetchTransactions\<close>; \<^verbatim>\<open>limit\<close> defaults to 50.\<close>

definition getTransactions_request :: "string \<Rightarrow> FetchTransactionsOptions \<Rightarrow> jsval" where
  "getTransactions_request contractAddress options =
     JObj [(''jsonrpc'', JStr ''2.0''),
           (''id'', JNum 1),
           (''method'', JStr ''getTransactions''),
           (''params'', JObj [
              (''startLedger'', num_or_undefined (startLedger options)),
              (''cursor'', str_or_undefined (FetchTransactionsOptions.cursor options)),
              (''limit'', JNum (case limit options of None \<Rightarrow> 50 | Some n \<Rightarrow> n)),
              (''filters'', JArr [JObj [(''type'', JStr ''contract''),
                                        (''contractIds'', JArr [JStr contractAddress])]])])]"

text \<open>The callback of \<^verbatim>\<open>.map\<close>: one raw transaction to one \<^verbatim>\<open>TransactionMetadata\<close>.\<close>

definition toMetadata :: "jsval \<Rightarrow> js_error + TransactionMetadata" where
  "toMetadata tx =
     bindE (getp tx ''id'') (\<lambda>i.
     bindE (getp tx ''ledger'') (\<lambda>l.
     bindE (getp tx ''createdAt'') (\<lambda>c.
     bindE (getp tx ''status'') (\<lambda>s.
     bindE (getp tx ''applicationOrder'') (\<lambda>a.
       Inr \<lparr>txHash = i, ledger = l, createdAt = c, status = s, applicationOrder = a\<rparr>)))))"

definition retention_response :: TransactionResponse where
  "retention_response =
     \<lparr>transactions = [], latestLedger = JNum 0, oldestLedger = JNum 0, cursor = JUndefined,
      hasMore = False,
      retentionNotice = Some ''Transaction data beyond retention period. RPC typically retains 24h-7 days of history.''\<rparr>"

definition fallback_response :: TransactionResponse where
  "fallback_response =
     \<lparr>transactions = [], latestLedger = JNum 0, oldestLedger = JNum 0, cursor = JUndefined,
      hasMore = False,
      retentionNotice = Some ''Unable to fetch transaction history. This may be due to retention limits or network issues.''\<rparr>"

text \<open>
  The test \<^verbatim>\<open>data.error.code === -32600 || data.error.message?.includes("retention")\<close>;
  the right operand is evaluated only when the left one is false.
\<close>

definition is_retention_error :: "jsval \<Rightarrow> js_error + jsval" where
  "is_retention_error err =
     bindE (getp err ''code'') (\<lambda>code.
       if code = JNum (- 32600) then Inr (JBool True)
       else bindE (getp err ''message'') (\<lambda>message. opt_includes message ''retention''))"

text \<open>The statements after the error check (lines 103 to 121).\<close>

definition listing_of_result :: "jsval \<Rightarrow> js_error + TransactionResponse" where
  "listing_of_result result =
     bindE (getp result ''transactions'') (\<lambda>raw.
     bindE (js_map (js_or raw (JArr [])) toMetadata) (\<lambda>txs.
     bindE (getp result ''latestLedger'') (\<lambda>latest.
     bindE (getp result ''oldestLedger'') (\<lambda>oldest.
     bindE (getp result ''cursor'') (\<lambda>cur.
       Inr \<lparr>transactions = txs,
            latestLedger = js_or latest (JNum 0),
            oldestLedger = js_or oldest (JNum 0),
            cursor = cur,
            hasMore = truthy cur,
            retentionNotice =
              (if length txs = 0
               then Some ''No recent transactions found. Note: RPC typically retains 24h-7 days of history.''
               else None)\<rparr>)))))"

text \<open>
  The body of the \<^verbatim>\<open>try\<close> block. \<open>Contract\<close> stands for the SDK's
  \<^verbatim>\<open>new Contract(contractId).contractId()\<close>, which throws on an id it does not accept.
\<close>

definition fetchTransactions_try ::
  "(string \<Rightarrow> js_error + string) \<Rightarrow> fetch \<Rightarrow> string \<Rightarrow> FetchTransactionsOptions
     \<Rightarrow> js_error + TransactionResponse" where
  "fetchTransactions_try Contract fetch contractId options =
     bindE (Contract contractId) (\<lambda>contractAddress.
     bindE (fetch SOROBAN_RPC_URL (getTransactions_request contractAddress options)) (\<lambda>response.
       if \<not> ok response then Inl (HttpError (resp_status response))
       else
         bindE (json response) (\<lambda>data.
         bindE (getp data ''error'') (\<lambda>err.
           if truthy err then
             bindE (is_retention_error err) (\<lambda>retention.
               if truthy retention then Inr retention_response
               else bindE (getp err ''message'') (\<lambda>message.
                      Inl (Error (js_or message (JStr ''Failed to fetch transactions'')))))
           else bindE (getp data ''result'') listing_of_result))))"

text \<open>The whole function: the \<^verbatim>\<open>catch\<close> turns every throw into the fallback listing.\<close>

definition fetchTransactions ::
  "(string \<Rightarrow> js_error + string) \<Rightarrow> fetch \<Rightarrow> string \<Rightarrow> FetchTransactionsOptions
     \<Rightarrow> TransactionResponse" where
  "fetchTransactions Contract fetch contractId options =
     (case fetchTransactions_try Contract fetch contractId options of
        Inl e \<Rightarrow> fallback_response
      | Inr r \<Rightarrow> r)"

section \<open>transactionFetcher: the details of one transaction\<close>

record TransactionDetails =
  txHash :: jsval
  ledger :: jsval
  createdAt :: jsval
  status :: jsval
  signers :: "string list"
  calledFunction :: jsval
  args :: jsval
  result :: jsval
  envelope :: jsval
  meta :: jsval

definition getTransaction_request :: "string \<Rightarrow> jsval" where
  "getTransaction_request h =
     JObj [(''jsonrpc'', JStr ''2.0''),
           (''id'', JNum 2),
           (''method'', JStr ''getTransaction''),
           (''params'', JObj [(''hash'', JStr h)])]"

text \<open>\<^verbatim>\<open>tx.envelopeXdr && tx.envelope?.signatures\<close>, then the placeholder signer.\<close>

definition extract_signers :: "jsval \<Rightarrow> js_error + string list" where
  "extract_signers tx =
     bindE (getp tx ''envelopeXdr'') (\<lambda>xdr.
     bindE (if truthy xdr then bindE (getp tx ''envelope'') (\<lambda>env. Inr (optp env ''signatures''))
            else Inr xdr) (\<lambda>c.
       Inr (if truthy c then [''(Signature validation required)''] else [])))"

text \<open>\<^verbatim>\<open>tx.envelope?.v1?.tx?.operations || []\<close>.\<close>

definition operations :: "jsval \<Rightarrow> js_error + jsval" where
  "operations tx =
     bindE (getp tx ''envelope'') (\<lambda>env.
       Inr (js_or (optp (optp (optp env ''v1'') ''tx'') ''operations'') (JArr [])))"

text \<open>The callback of \<^verbatim>\<open>.find\<close>: \<^verbatim>\<open>op.body?.invokeHostFunction\<close>.\<close>

definition is_invoke :: "jsval \<Rightarrow> js_error + jsval" where
  "is_invoke op = bindE (getp op ''body'') (\<lambda>b. Inr (optp b ''invokeHostFunction''))"

text \<open>
  The inner \<^verbatim>\<open>try\<close> block assigns the locals \<^verbatim>\<open>calledFunction\<close>, \<^verbatim>\<open>args\<close> and
  \<^verbatim>\<open>result\<close>, all \<^verbatim>\<open>undefined\<close> before it; its \<^verbatim>\<open>catch\<close> only logs, so what was
  assigned before a throw stays. Each part below gives the locals it leaves and the
  error it threw, if any.
\<close>

definition assign_call :: "jsval \<Rightarrow> (jsval \<times> jsval) \<times> js_error option" where
  "assign_call invokeOp =
     (if \<not> truthy invokeOp then ((JUndefined, JUndefined), None)
      else
        (case bindE (getp invokeOp ''body'') (\<lambda>b.
              bindE (getp b ''invokeHostFunction'') (\<lambda>i. getp i ''hostFunction'')) of
           Inl e \<Rightarrow> ((JUndefined, JUndefined), Some e)
         | Inr hostFunction \<Rightarrow>
             (if \<not> truthy (optp hostFunction ''invokeContract'')
              then ((JUndefined, JUndefined), None)
              else
                (case bindE (getp hostFunction ''invokeContract'') (\<lambda>c. getp c ''functionName'') of
                   Inl e \<Rightarrow> ((JUndefined, JUndefined), Some e)
                 | Inr name \<Rightarrow>
                     (case bindE (getp hostFunction ''invokeContract'') (\<lambda>c. getp c ''args'') of
                        Inl e \<Rightarrow> ((js_or name (JStr ''invoke_contract''), JUndefined), Some e)
                      | Inr a \<Rightarrow>
                          ((js_or name (JStr ''invoke_contract''), js_or a (JArr [])), None))))))"

definition assign_result :: "jsval \<Rightarrow> jsval \<times> js_error option" where
  "assign_result tx =
     (case bindE (getp tx ''meta'') (\<lambda>m.
           bindE (getp m ''v3'') (\<lambda>v3. Inr (optp (optp v3 ''sorobanMeta'') ''returnValue''))) of
        Inl e \<Rightarrow> (JUndefined, Some e)
      | Inr c \<Rightarrow>
          (if \<not> truthy c then (JUndefined, None)
           else
             (case bindE (getp tx ''meta'') (\<lambda>m.
                   bindE (getp m ''v3'') (\<lambda>v3.
                   bindE (getp v3 ''sorobanMeta'') (\<lambda>sm. getp sm ''returnValue''))) of
                Inl e \<Rightarrow> (JUndefined, Some e)
              | Inr r \<Rightarrow> (r, None))))"

text \<open>The inner \<^verbatim>\<open>try\<close>/\<^verbatim>\<open>catch\<close>: the final (calledFunction, args, result).\<close>

definition extract_call :: "jsval \<Rightarrow> jsval \<times> jsval \<times> jsval" where
  "extract_call tx =
     (case bindE (operations tx) (\<lambda>ops. js_find ops is_invoke) of
        Inl e \<Rightarrow> (JUndefined, JUndefined, JUndefined)
      | Inr invokeOp \<Rightarrow>
          (case assign_call invokeOp of
             ((f, a), Some e) \<Rightarrow> (f, a, JUndefined)
           | ((f, a), None) \<Rightarrow> (f, a, fst (assign_result tx))))"

text \<open>The statements from the signers on (lines 174 to 220), for a truthy \<^verbatim>\<open>tx\<close>.\<close>

definition details_of_result :: "jsval \<Rightarrow> js_error + TransactionDetails" where
  "details_of_result tx =
     bindE (extract_signers tx) (\<lambda>sg.
     bindE (getp tx ''resultMetaXdr'') (\<lambda>xdr.
     bindE (if truthy xdr then getp tx ''meta'' else Inr xdr) (\<lambda>c.
     let (f, a, r) = (if truthy c then extract_call tx else (JUndefined, JUndefined, JUndefined)) in
     bindE (getp tx ''id'') (\<lambda>i.
     bindE (getp tx ''ledger'') (\<lambda>l.
     bindE (getp tx ''createdAt'') (\<lambda>ca.
     bindE (getp tx ''status'') (\<lambda>s.
     bindE (getp tx ''envelope'') (\<lambda>env.
     bindE (getp tx ''meta'') (\<lambda>m.
       Inr \<lparr>txHash = i, ledger = l, createdAt = ca, status = s, signers = sg,
            calledFunction = f, args = a, result = r, envelope = env, meta = m\<rparr>)))))))))"

definition fetchTransactionDetails_try :: "fetch \<Rightarrow> string \<Rightarrow> js_error + TransactionDetails option" where
  "fetchTransactionDetails_try fetch h =
     bindE (fetch SOROBAN_RPC_URL (getTransaction_request h)) (\<lambda>response.
       if \<not> ok response then Inl (HttpError (resp_status response))
       else
         bindE (json response) (\<lambda>data.
         bindE (getp data ''error'') (\<lambda>err.
           if truthy err then Inr None
           else
             bindE (getp data ''result'') (\<lambda>tx.
               if \<not> truthy tx then Inr None
               else bindE (details_of_result tx) (\<lambda>d. Inr (Some d))))))"

text \<open>The whole function: \<open>None\<close> is the \<^verbatim>\<open>null\<close> it returns; the \<^verbatim>\<open>catch\<close> returns it too.\<close>

definition fetchTransactionDetails :: "fetch \<Rightarrow> string \<Rightarrow> TransactionDetails option" where
  "fetchTransactionDetails fetch h =
     (case fetchTransactionDetails_try fetch h of
        Inl e \<Rightarrow> None
      | Inr d \<Rightarrow> d)"

section \<open>NetworkContext: the network selection\<close>

text \<open>
  The provider's state is the selected network (the \<^verbatim>\<open>useState\<close> cell) and the
  browser's local storage. \<^verbatim>\<open>localStorage.setItem\<close> may throw (storage disabled or
  full); the flag \<open>writable\<close> says whether it succeeds.
\<close>

record NetworkState =
  currentNetwork :: string
  localStorage :: "string \<rightharpoonup> string"

definition setItem :: "bool \<Rightarrow> (string \<rightharpoonup> string) \<Rightarrow> string \<Rightarrow> string \<Rightarrow> js_error + (string \<rightharpoonup> string)" where
  "setItem writable store k v = (if writable then Inr (store(k \<mapsto> v)) else Inl (Error JUndefined))"

definition setNetwork :: "bool \<Rightarrow> string \<Rightarrow> NetworkState \<Rightarrow> NetworkState" where
  "setNetwork writable network s =
     (let s1 = s\<lparr>currentNetwork := network\<rparr> in
      case setItem writable (localStorage s1) ''escrow-viewer-network'' network of
        Inl e \<Rightarrow> s1
      | Inr store \<Rightarrow> s1\<lparr>localStorage := store\<rparr>)"

text \<open>
  \<^verbatim>\<open>toggleNetwork\<close> is a closure created by one render of the provider: it reads the
  \<^verbatim>\<open>const currentNetwork\<close> that this render captured (\<open>captured\<close>), not the state at
  the time of the call, and passes a value, not an updater, to \<^verbatim>\<open>setCurrentNetwork\<close>.
\<close>

definition toggleNetwork :: "string \<Rightarrow> bool \<Rightarrow> NetworkState \<Rightarrow> NetworkState" where
  "toggleNetwork captured writable s =
     (let newNetwork = (if captured = ''testnet'' then ''mainnet'' else ''testnet'')
      in setNetwork writable newNetwork s)"

text \<open>
  The \<^verbatim>\<open>toggleNetwork\<close> that the render of the provider in state \<open>r\<close> puts into the
  context value: the closure over that state's \<^verbatim>\<open>currentNetwork\<close>.
\<close>

definition NetworkProvider_toggleNetwork :: "NetworkState \<Rightarrow> bool \<Rightarrow> NetworkState \<Rightarrow> NetworkState" where
  "NetworkProvider_toggleNetwork r = toggleNetwork (currentNetwork r)"

section \<open>Environments for concrete runs\<close>

text \<open>A \<^verbatim>\<open>Contract\<close> that accepts every id, and a transport with one fixed outcome.\<close>

definition accepting_Contract :: "string \<Rightarrow> js_error + string" where
  "accepting_Contract contractId = Inr contractId"

definition fixed_fetch :: "js_error + response \<Rightarrow> fetch" where
  "fixed_fetch outcome url request = outcome"

definition no_options :: FetchTransactionsOptions where
  "no_options = \<lparr>startLedger = None, cursor = None, limit = None\<rparr>"

definition empty_storage :: "string \<rightharpoonup> string" where
  "empty_storage = Map.empty"

section \<open>Properties of the network selection\<close>

lemma currentNetwork_setNetwork: "currentNetwork (setNetwork w n s) = n"
  by (simp add: setNetwork_def Let_def split: sum.split)

lemma currentNetwork_toggleNetwork:
  "currentNetwork (toggleNetwork c w s) = (if c = ''testnet'' then ''mainnet'' else ''testnet'')"
  by (simp add: toggleNetwork_def Let_def currentNetwork_setNetwork)

text \<open>
  Claim C9, as the code has it. From either valid network value, one
  \<^verbatim>\<open>toggleNetwork\<close> selects the other valid value. A second \<^verbatim>\<open>toggleNetwork\<close> selects
  the original value again when it is the one of the render that follows the first
  call; a second call of the same render's \<^verbatim>\<open>toggleNetwork\<close> selects the other value
  once more. All of it holds whether or not the writes to local storage succeed.
\<close>

theorem toggleNetwork_flip:
  assumes "currentNetwork s = ''testnet'' \<or> currentNetwork s = ''mainnet''"
  shows "currentNetwork (NetworkProvider_toggleNetwork s w1 s) \<noteq> currentNetwork s
       \<and> (currentNetwork (NetworkProvider_toggleNetwork s w1 s) = ''testnet''
          \<or> currentNetwork (NetworkProvider_toggleNetwork s w1 s) = ''mainnet'')
       \<and> currentNetwork (NetworkProvider_toggleNetwork (NetworkProvider_toggleNetwork s w1 s) w2
            (NetworkProvider_toggleNetwork s w1 s)) = currentNetwork s
       \<and> currentNetwork (NetworkProvider_toggleNetwork s w2 (NetworkProvider_toggleNetwork s w1 s))
            = currentNetwork (NetworkProvider_toggleNetwork s w1 s)"
  using assms
  by (auto simp add: NetworkProvider_toggleNetwork_def currentNetwork_toggleNetwork)

theorem toggleNetwork_flip_witness:
  "currentNetwork (NetworkProvider_toggleNetwork
      \<lparr>currentNetwork = ''mainnet'', localStorage = empty_storage\<rparr> False
      \<lparr>currentNetwork = ''mainnet'', localStorage = empty_storage\<rparr>) = ''testnet''
   \<and> currentNetwork (NetworkProvider_toggleNetwork
        (NetworkProvider_toggleNetwork
           \<lparr>currentNetwork = ''mainnet'', localStorage = empty_storage\<rparr> False
           \<lparr>currentNetwork = ''mainnet'', localStorage = empty_storage\<rparr>) True
        (NetworkProvider_toggleNetwork
           \<lparr>currentNetwork = ''mainnet'', localStorage = empty_storage\<rparr> False
           \<lparr>currentNetwork = ''mainnet'', localStorage = empty_storage\<rparr>)) = ''mainnet''"
proof -
  have h: "currentNetwork \<lparr>currentNetwork = ''mainnet'', localStorage = empty_storage\<rparr> = ''testnet''
     \<or> currentNetwork \<lparr>currentNetwork = ''mainnet'', localStorage = empty_storage\<rparr> = ''mainnet''"
    by simp
  show ?thesis
    using toggleNetwork_flip [OF h, of False True]
    by (simp add: NetworkProvider_toggleNetwork_def currentNetwork_toggleNetwork)
qed

theorem toggleNetwork_twice_counterexample:
  "currentNetwork \<lparr>currentNetwork = ''testnet'', localStorage = empty_storage\<rparr> = ''testnet''
   \<and> currentNetwork (NetworkProvider_toggleNetwork
        \<lparr>currentNetwork = ''testnet'', localStorage = empty_storage\<rparr> True
        (NetworkProvider_toggleNetwork
           \<lparr>currentNetwork = ''testnet'', localStorage = empty_storage\<rparr> True
           \<lparr>currentNetwork = ''testnet'', localStorage = empty_storage\<rparr>)) = ''mainnet''"
  by (simp add: NetworkProvider_toggleNetwork_def currentNetwork_toggleNetwork)

section \<open>Properties of the JavaScript operations\<close>

lemma getp_optp: "\<not> nullish v \<Longrightarrow> getp v k = Inr (optp v k)"
  by (cases v) simp_all

lemma truthy_not_nullish: "truthy v \<Longrightarrow> \<not> nullish v"
  by (cases v) simp_all

lemma getp_Inr_not_nullish: "getp v k = Inr w \<Longrightarrow> \<not> nullish v"
  by (cases v) simp_all

lemma bindE_Inl [simp]: "bindE (Inl e) f = Inl e" by (simp add: bindE_def)
lemma bindE_Inr [simp]: "bindE (Inr v) f = f v" by (simp add: bindE_def)

lemma str_includes_iff: "str_includes s p \<longleftrightarrow> (\<exists>a b. s = a @ p @ b)"
proof (induction s)
  case Nil
  then show ?case by auto
next
  case (Cons c cs)
  show ?case
  proof
    assume "str_includes (c # cs) p"
    then consider "take (length p) (c # cs) = p" | "str_includes cs p" by auto
    then show "\<exists>a b. c # cs = a @ p @ b"
    proof cases
      case 1
      then have "c # cs = [] @ p @ drop (length p) (c # cs)"
        by (metis append_Nil append_take_drop_id)
      then show ?thesis by blast
    next
      case 2
      then obtain a b where "cs = a @ p @ b" using Cons.IH by blast
      then have "c # cs = (c # a) @ p @ b" by simp
      then show ?thesis by blast
    qed
  next
    assume "\<exists>a b. c # cs = a @ p @ b"
    then obtain a b where ab: "c # cs = a @ p @ b" by blast
    show "str_includes (c # cs) p"
    proof (cases a)
      case Nil
      then have "take (length p) (c # cs) = p" using ab by simp
      then show ?thesis by simp
    next
      case (Cons x a')
      then have "cs = a' @ p @ b" using ab by simp
      then have "str_includes cs p" using Cons.IH by blast
      then show ?thesis by simp
    qed
  qed
qed


lemma bindE_InrE: "bindE m f = Inr r \<Longrightarrow> (\<And>v. m = Inr v \<Longrightarrow> f v = Inr r \<Longrightarrow> P) \<Longrightarrow> P"
  by (cases m) simp_all

section \<open>Properties of the listing\<close>

lemma listing_of_result_fields:
  assumes "listing_of_result res = Inr r"
  shows "hasMore r = truthy (TransactionResponse.cursor r)"
    and "transactions r = [] \<Longrightarrow> retentionNotice r =
           Some ''No recent transactions found. Note: RPC typically retains 24h-7 days of history.''"
    and "transactions r \<noteq> [] \<Longrightarrow> retentionNotice r = None"
  using assms unfolding listing_of_result_def
  by (auto elim!: bindE_InrE)

lemma fetchTransactions_try_cases:
  assumes "fetchTransactions_try Contract fetch contractId options = Inr r"
  shows "r = retention_response \<or> (\<exists>res. listing_of_result res = Inr r)"
  using assms unfolding fetchTransactions_try_def
  by (auto elim!: bindE_InrE split: if_splits)

lemma fetchTransactions_cases:
  "fetchTransactions Contract fetch contractId options = fallback_response
   \<or> fetchTransactions Contract fetch contractId options = retention_response
   \<or> (\<exists>res. listing_of_result res = Inr (fetchTransactions Contract fetch contractId options))"
proof (cases "fetchTransactions_try Contract fetch contractId options")
  case (Inl e)
  then show ?thesis by (simp add: fetchTransactions_def)
next
  case (Inr r)
  then show ?thesis
    using fetchTransactions_try_cases [OF Inr] by (auto simp add: fetchTransactions_def)
qed

lemma fetchTransactions_try_success:
  assumes "Contract contractId = Inr addr"
    and "fetch SOROBAN_RPC_URL (getTransactions_request addr options) = Inr resp"
    and "ok resp"
    and "resp_body resp = Some data"
    and "getp data ''error'' = Inr err"
    and "\<not> truthy err"
  shows "fetchTransactions_try Contract fetch contractId options =
           bindE (getp data ''result'') listing_of_result"
  using assms by (simp add: fetchTransactions_try_def json_def)

lemma toMetadata_not_nullish:
  "\<not> nullish raw \<Longrightarrow> toMetadata raw =
     Inr \<lparr>TransactionMetadata.txHash = optp raw ''id'', TransactionMetadata.ledger = optp raw ''ledger'',
          TransactionMetadata.createdAt = optp raw ''createdAt'', TransactionMetadata.status = optp raw ''status'',
          applicationOrder = optp raw ''applicationOrder''\<rparr>"
  by (simp add: toMetadata_def getp_optp)

lemma mapE_toMetadata:
  "\<forall>raw \<in> set raws. \<not> nullish raw \<Longrightarrow>
   mapE toMetadata raws =
     Inr (map (\<lambda>raw. \<lparr>TransactionMetadata.txHash = optp raw ''id'', TransactionMetadata.ledger = optp raw ''ledger'',
          TransactionMetadata.createdAt = optp raw ''createdAt'', TransactionMetadata.status = optp raw ''status'',
          applicationOrder = optp raw ''applicationOrder''\<rparr>) raws)"
  by (induction raws) (simp_all add: toMetadata_not_nullish)

lemma listing_of_result_array:
  assumes "getp res ''transactions'' = Inr (JArr raws)"
    and "\<forall>raw \<in> set raws. \<not> nullish raw"
  shows "listing_of_result res =
     Inr \<lparr>transactions = map (\<lambda>raw. \<lparr>TransactionMetadata.txHash = optp raw ''id'', TransactionMetadata.ledger = optp raw ''ledger'',
              TransactionMetadata.createdAt = optp raw ''createdAt'', TransactionMetadata.status = optp raw ''status'',
              applicationOrder = optp raw ''applicationOrder''\<rparr>) raws,
          latestLedger = js_or (optp res ''latestLedger'') (JNum 0),
          oldestLedger = js_or (optp res ''oldestLedger'') (JNum 0),
          cursor = optp res ''cursor'',
          hasMore = truthy (optp res ''cursor''),
          retentionNotice =
            (if raws = []
             then Some ''No recent transactions found. Note: RPC typically retains 24h-7 days of history.''
             else None)\<rparr>"
proof -
  have nn: "\<not> nullish res" using assms(1) by (rule getp_Inr_not_nullish)
  have "js_or (JArr raws) (JArr []) = JArr raws" by (simp add: js_or_def)
  then show ?thesis
    using assms by (simp add: listing_of_result_def getp_optp [OF nn] mapE_toMetadata)
qed


lemma is_retention_error_generic:
  assumes "truthy err"
    and "optp err ''code'' \<noteq> JNum (- 32600)"
    and "opt_includes (optp err ''message'') ''retention'' \<noteq> Inr (JBool True)"
  shows "(\<exists>e'. is_retention_error err = Inl e')
       \<or> (\<exists>v. is_retention_error err = Inr v \<and> \<not> truthy v)"
proof -
  have nn: "\<not> nullish err" using assms(1) by (rule truthy_not_nullish)
  show ?thesis
    using assms(2,3)
    by (cases "optp err ''message''") (auto simp add: is_retention_error_def getp_optp [OF nn])
qed

text \<open>
  Claim C1. \<^verbatim>\<open>fetchTransactions\<close> has no failure result. When the contract id is
  rejected, the request throws, the status is not 2xx, the body is not JSON, or the
  answer carries an error that is not a retention error, the result is the fallback
  listing: no items, both ledger bounds 0, \<open>hasMore\<close> false and a non-empty notice.
\<close>

theorem fetchTransactions_fallback:
  assumes "Contract contractId = Inl e
    \<or> (Contract contractId = Inr addr
        \<and> fetch SOROBAN_RPC_URL (getTransactions_request addr options) = Inl e)
    \<or> (Contract contractId = Inr addr
        \<and> fetch SOROBAN_RPC_URL (getTransactions_request addr options) = Inr resp
        \<and> (\<not> ok resp
           \<or> resp_body resp = None
           \<or> (resp_body resp = Some data \<and> getp data ''error'' = Inr err \<and> truthy err
               \<and> optp err ''code'' \<noteq> JNum (- 32600)
               \<and> opt_includes (optp err ''message'') ''retention'' \<noteq> Inr (JBool True))))"
  shows "transactions (fetchTransactions Contract fetch contractId options) = []
    \<and> latestLedger (fetchTransactions Contract fetch contractId options) = JNum 0
    \<and> oldestLedger (fetchTransactions Contract fetch contractId options) = JNum 0
    \<and> hasMore (fetchTransactions Contract fetch contractId options) = False
    \<and> retentionNotice (fetchTransactions Contract fetch contractId options) =
        Some ''Unable to fetch transaction history. This may be due to retention limits or network issues.''"
proof -
  have "\<exists>x. fetchTransactions_try Contract fetch contractId options = Inl x"
    using assms
  proof (elim disjE conjE)
    assume "Contract contractId = Inl e"
    then show ?thesis by (simp add: fetchTransactions_try_def)
  next
    assume "Contract contractId = Inr addr"
      and "fetch SOROBAN_RPC_URL (getTransactions_request addr options) = Inl e"
    then show ?thesis by (simp add: fetchTransactions_try_def)
  next
    assume "Contract contractId = Inr addr"
      and "fetch SOROBAN_RPC_URL (getTransactions_request addr options) = Inr resp"
      and "\<not> ok resp"
    then show ?thesis by (simp add: fetchTransactions_try_def)
  next
    assume "Contract contractId = Inr addr"
      and "fetch SOROBAN_RPC_URL (getTransactions_request addr options) = Inr resp"
      and "resp_body resp = None"
    then show ?thesis by (simp add: fetchTransactions_try_def json_def)
  next
    assume a: "Contract contractId = Inr addr"
      "fetch SOROBAN_RPC_URL (getTransactions_request addr options) = Inr resp"
      "resp_body resp = Some data" "getp data ''error'' = Inr err" "truthy err"
      and g: "optp err ''code'' \<noteq> JNum (- 32600)"
      "opt_includes (optp err ''message'') ''retention'' \<noteq> Inr (JBool True)"
    have nn: "\<not> nullish err" using a(5) by (rule truthy_not_nullish)
    have "(\<exists>e'. is_retention_error err = Inl e')
        \<or> (\<exists>v. is_retention_error err = Inr v \<and> \<not> truthy v)"
      using a(5) g by (rule is_retention_error_generic)
    then show ?thesis
      using a by (auto simp add: fetchTransactions_try_def json_def getp_optp [OF nn])
  qed
  then show ?thesis
    by (auto simp add: fetchTransactions_def fallback_response_def)
qed

text \<open>
  Claim C2. When the answer arrives (status 2xx, JSON body) and carries an error object
  whose code is -32600 or whose message is a string containing "retention", the result
  is the empty listing with the retention notice, whatever the options (so whatever the
  limit).
\<close>

theorem fetchTransactions_retention:
  assumes "Contract contractId = Inr addr"
    and "fetch SOROBAN_RPC_URL (getTransactions_request addr options) = Inr resp"
    and "ok resp"
    and "resp_body resp = Some data"
    and "getp data ''error'' = Inr (JObj err)"
    and "map_of err ''code'' = Some (JNum (- 32600))
       \<or> (\<exists>s. map_of err ''message'' = Some (JStr s) \<and> str_includes s ''retention'')"
  shows "transactions (fetchTransactions Contract fetch contractId options) = []
    \<and> latestLedger (fetchTransactions Contract fetch contractId options) = JNum 0
    \<and> oldestLedger (fetchTransactions Contract fetch contractId options) = JNum 0
    \<and> hasMore (fetchTransactions Contract fetch contractId options) = False
    \<and> retentionNotice (fetchTransactions Contract fetch contractId options) =
        Some ''Transaction data beyond retention period. RPC typically retains 24h-7 days of history.''"
proof -
  have "is_retention_error (JObj err) = Inr (JBool True)"
    using assms(6) by (auto simp add: is_retention_error_def)
  then have "fetchTransactions_try Contract fetch contractId options = Inr retention_response"
    using assms(1-5) by (simp add: fetchTransactions_try_def json_def)
  then show ?thesis
    by (simp add: fetchTransactions_def retention_response_def)
qed

text \<open>
  Claim C4, as the code has it. \<open>hasMore\<close> is \<^verbatim>\<open>!!result.cursor\<close>: it is true exactly
  when the returned cursor is truthy, on every path.
\<close>

theorem fetchTransactions_hasMore:
  "hasMore (fetchTransactions Contract fetch contractId options) =
     truthy (TransactionResponse.cursor (fetchTransactions Contract fetch contractId options))"
  using fetchTransactions_cases [of Contract fetch contractId options]
  by (auto simp add: fallback_response_def retention_response_def
        dest: listing_of_result_fields(1))

text \<open>
  Claim C5. On every path, an empty item list comes with a non-empty notice and a
  non-empty item list comes with no notice.
\<close>

theorem fetchTransactions_notice:
  "(transactions (fetchTransactions Contract fetch contractId options) = []
      \<longrightarrow> (\<exists>s. retentionNotice (fetchTransactions Contract fetch contractId options) = Some s
               \<and> s \<noteq> []))
   \<and> (transactions (fetchTransactions Contract fetch contractId options) \<noteq> []
      \<longrightarrow> retentionNotice (fetchTransactions Contract fetch contractId options) = None)"
  using fetchTransactions_cases [of Contract fetch contractId options]
  by (auto simp add: fallback_response_def retention_response_def
        dest: listing_of_result_fields(2,3))


lemmas run_defs =
  fetchTransactions_def fetchTransactions_try_def accepting_Contract_def fixed_fetch_def
  ok_def json_def listing_of_result_def toMetadata_def js_or_def is_retention_error_def
  retention_response_def fallback_response_def

theorem fetchTransactions_fallback_witness:
  "transactions (fetchTransactions accepting_Contract
      (fixed_fetch (Inr (Response 200 (Some (JObj [(''jsonrpc'', JStr ''2.0''), (''id'', JNum 1),
         (''error'', JObj [(''code'', JNum (- 32601)), (''message'', JStr ''Method not found'')])])))))
      ''CA'' no_options) = []
   \<and> retentionNotice (fetchTransactions accepting_Contract
      (fixed_fetch (Inr (Response 200 (Some (JObj [(''jsonrpc'', JStr ''2.0''), (''id'', JNum 1),
         (''error'', JObj [(''code'', JNum (- 32601)), (''message'', JStr ''Method not found'')])])))))
      ''CA'' no_options) =
      Some ''Unable to fetch transaction history. This may be due to retention limits or network issues.''"
proof -
  let ?err = "JObj [(''code'', JNum (- 32601)), (''message'', JStr ''Method not found'')]"
  let ?data = "JObj [(''jsonrpc'', JStr ''2.0''), (''id'', JNum 1), (''error'', ?err)]"
  have h: "accepting_Contract ''CA'' = Inr ''CA''
      \<and> fixed_fetch (Inr (Response 200 (Some ?data))) SOROBAN_RPC_URL
           (getTransactions_request ''CA'' no_options) = Inr (Response 200 (Some ?data))
      \<and> resp_body (Response 200 (Some ?data)) = Some ?data
      \<and> getp ?data ''error'' = Inr ?err \<and> truthy ?err
      \<and> optp ?err ''code'' \<noteq> JNum (- 32600)
      \<and> opt_includes (optp ?err ''message'') ''retention'' \<noteq> Inr (JBool True)"
    by (simp add: accepting_Contract_def fixed_fetch_def)
  show ?thesis
    using fetchTransactions_fallback [where Contract = accepting_Contract and contractId = "''CA''"
        and addr = "''CA''" and options = no_options and e = TypeError
        and fetch = "fixed_fetch (Inr (Response 200 (Some ?data)))"
        and resp = "Response 200 (Some ?data)" and data = ?data and err = ?err] h
    by simp
qed

theorem fetchTransactions_retention_witness:
  "retentionNotice (fetchTransactions accepting_Contract
      (fixed_fetch (Inr (Response 200 (Some (JObj [(''jsonrpc'', JStr ''2.0''), (''id'', JNum 1),
         (''error'', JObj [(''code'', JNum (- 32600)), (''message'', JStr ''invalid request'')])])))))
      ''CA'' \<lparr>startLedger = Some 100, cursor = None, limit = Some 7\<rparr>) =
      Some ''Transaction data beyond retention period. RPC typically retains 24h-7 days of history.''
   \<and> latestLedger (fetchTransactions accepting_Contract
      (fixed_fetch (Inr (Response 200 (Some (JObj [(''jsonrpc'', JStr ''2.0''), (''id'', JNum 1),
         (''error'', JObj [(''code'', JNum (- 32600)), (''message'', JStr ''invalid request'')])])))))
      ''CA'' \<lparr>startLedger = Some 100, cursor = None, limit = Some 7\<rparr>) = JNum 0"
proof -
  let ?err = "[(''code'', JNum (- 32600)), (''message'', JStr ''invalid request'')]"
  let ?data = "JObj [(''jsonrpc'', JStr ''2.0''), (''id'', JNum 1), (''error'', JObj ?err)]"
  let ?opts = "\<lparr>startLedger = Some 100, cursor = None, limit = Some 7\<rparr>"
  have h1: "accepting_Contract ''CA'' = Inr ''CA''"
    by (simp add: accepting_Contract_def)
  have h2: "fixed_fetch (Inr (Response 200 (Some ?data))) SOROBAN_RPC_URL
           (getTransactions_request ''CA'' ?opts) = Inr (Response 200 (Some ?data))"
    by (simp add: fixed_fetch_def)
  have h3: "ok (Response 200 (Some ?data))" by (simp add: ok_def)
  have h4: "resp_body (Response 200 (Some ?data)) = Some ?data" by simp
  have h5: "getp ?data ''error'' = Inr (JObj ?err)" by simp
  have h6: "map_of ?err ''code'' = Some (JNum (- 32600))
       \<or> (\<exists>s. map_of ?err ''message'' = Some (JStr s) \<and> str_includes s ''retention'')"
    by simp
  show ?thesis
    using fetchTransactions_retention
      [where Contract = accepting_Contract
         and fetch = "fixed_fetch (Inr (Response 200 (Some ?data)))", OF h1 h2 h3 h4 h5 h6]
    by simp
qed

theorem fetchTransactions_hasMore_counterexample:
  "hasMore (fetchTransactions accepting_Contract
      (fixed_fetch (Inr (Response 200 (Some (JObj [(''jsonrpc'', JStr ''2.0''), (''id'', JNum 1),
         (''result'', JObj [(''transactions'', JArr []), (''latestLedger'', JNum 9),
                            (''oldestLedger'', JNum 1), (''cursor'', JStr '''')])])))))
      ''CA'' no_options) = False
   \<and> TransactionResponse.cursor (fetchTransactions accepting_Contract
      (fixed_fetch (Inr (Response 200 (Some (JObj [(''jsonrpc'', JStr ''2.0''), (''id'', JNum 1),
         (''result'', JObj [(''transactions'', JArr []), (''latestLedger'', JNum 9),
                            (''oldestLedger'', JNum 1), (''cursor'', JStr '''')])])))))
      ''CA'' no_options) = JStr ''''"
  by (simp add: run_defs)

theorem fetchTransactions_notice_witness:
  "transactions (fetchTransactions accepting_Contract
      (fixed_fetch (Inr (Response 200 (Some (JObj [(''jsonrpc'', JStr ''2.0''), (''id'', JNum 1),
         (''result'', JObj [(''transactions'', JArr [JObj [(''id'', JStr ''abc''),
            (''ledger'', JNum 5), (''createdAt'', JStr ''t''), (''status'', JStr ''SUCCESS'')]]),
            (''latestLedger'', JNum 9), (''oldestLedger'', JNum 1)])])))))
      ''CA'' no_options) \<noteq> []
   \<and> retentionNotice (fetchTransactions accepting_Contract
      (fixed_fetch (Inr (Response 200 (Some (JObj [(''jsonrpc'', JStr ''2.0''), (''id'', JNum 1),
         (''result'', JObj [(''transactions'', JArr [JObj [(''id'', JStr ''abc''),
            (''ledger'', JNum 5), (''createdAt'', JStr ''t''), (''status'', JStr ''SUCCESS'')]]),
            (''latestLedger'', JNum 9), (''oldestLedger'', JNum 1)])])))))
      ''CA'' no_options) = None
   \<and> transactions (fetchTransactions accepting_Contract
      (fixed_fetch (Inr (Response 200 (Some (JObj [(''jsonrpc'', JStr ''2.0''), (''id'', JNum 1),
         (''result'', JObj [(''transactions'', JArr []),
            (''latestLedger'', JNum 9), (''oldestLedger'', JNum 1)])])))))
      ''CA'' no_options) = []
   \<and> retentionNotice (fetchTransactions accepting_Contract
      (fixed_fetch (Inr (Response 200 (Some (JObj [(''jsonrpc'', JStr ''2.0''), (''id'', JNum 1),
         (''result'', JObj [(''transactions'', JArr []),
            (''latestLedger'', JNum 9), (''oldestLedger'', JNum 1)])])))))
      ''CA'' no_options) \<noteq> None"
proof -
  let ?one = "fixed_fetch (Inr (Response 200 (Some (JObj [(''jsonrpc'', JStr ''2.0''), (''id'', JNum 1),
         (''result'', JObj [(''transactions'', JArr [JObj [(''id'', JStr ''abc''),
            (''ledger'', JNum 5), (''createdAt'', JStr ''t''), (''status'', JStr ''SUCCESS'')]]),
            (''latestLedger'', JNum 9), (''oldestLedger'', JNum 1)])]))))"
  let ?none = "fixed_fetch (Inr (Response 200 (Some (JObj [(''jsonrpc'', JStr ''2.0''), (''id'', JNum 1),
         (''result'', JObj [(''transactions'', JArr []),
            (''latestLedger'', JNum 9), (''oldestLedger'', JNum 1)])]))))"
  have a: "transactions (fetchTransactions accepting_Contract ?one ''CA'' no_options) \<noteq> []"
    by (simp add: run_defs)
  have b: "transactions (fetchTransactions accepting_Contract ?none ''CA'' no_options) = []"
    by (simp add: run_defs)
  show ?thesis
    using a b
      fetchTransactions_notice [of accepting_Contract ?one "''CA''" no_options]
      fetchTransactions_notice [of accepting_Contract ?none "''CA''" no_options]
    by auto
qed


text \<open>
  The client copies the five fields of every raw transaction into the item and checks
  none of them: when the raw transactions are not \<^verbatim>\<open>null\<close>, the items are the raw
  fields, in the order of the answer.
\<close>

lemma fetchTransactions_items_copied:
  assumes "Contract contractId = Inr addr"
    and "fetch SOROBAN_RPC_URL (getTransactions_request addr options) = Inr resp"
    and "ok resp"
    and "resp_body resp = Some data"
    and "getp data ''error'' = Inr err"
    and "\<not> truthy err"
    and "getp data ''result'' = Inr res"
    and "getp res ''transactions'' = Inr (JArr raws)"
    and "\<forall>raw \<in> set raws. \<not> nullish raw"
  shows "transactions (fetchTransactions Contract fetch contractId options) =
      map (\<lambda>raw. \<lparr>TransactionMetadata.txHash = optp raw ''id'',
          TransactionMetadata.ledger = optp raw ''ledger'',
          TransactionMetadata.createdAt = optp raw ''createdAt'',
          TransactionMetadata.status = optp raw ''status'',
          applicationOrder = optp raw ''applicationOrder''\<rparr>) raws"
proof -
  have "fetchTransactions_try Contract fetch contractId options = listing_of_result res"
    using fetchTransactions_try_success
        [where Contract = Contract and fetch = fetch, OF assms(1-6)] assms(7)
      by simp
  then show ?thesis
    by (simp add: fetchTransactions_def listing_of_result_array [OF assms(8,9)])
qed

text \<open>
  Claim C3. For a success answer that is well formed, that is, whose raw transactions
  each have a non-empty string \<^verbatim>\<open>id\<close> and a \<^verbatim>\<open>ledger\<close> number of at least 0, the
  listing has one item for each raw transaction, and every item has a non-empty hash
  (the raw id) and a ledger of at least 0 (the raw ledger).
\<close>

theorem fetchTransactions_items_well_formed:
  assumes "Contract contractId = Inr addr"
    and "fetch SOROBAN_RPC_URL (getTransactions_request addr options) = Inr resp"
    and "ok resp"
    and "resp_body resp = Some data"
    and "getp data ''error'' = Inr err"
    and "\<not> truthy err"
    and "getp data ''result'' = Inr res"
    and "getp res ''transactions'' = Inr (JArr raws)"
    and "\<forall>raw \<in> set raws. \<exists>h n. getp raw ''id'' = Inr (JStr h) \<and> h \<noteq> []
           \<and> getp raw ''ledger'' = Inr (JNum n) \<and> 0 \<le> n"
  shows "map TransactionMetadata.txHash (transactions (fetchTransactions Contract fetch contractId options))
           = map (\<lambda>raw. optp raw ''id'') raws
    \<and> map TransactionMetadata.ledger (transactions (fetchTransactions Contract fetch contractId options))
           = map (\<lambda>raw. optp raw ''ledger'') raws
    \<and> (\<forall>m \<in> set (transactions (fetchTransactions Contract fetch contractId options)).
          \<exists>h n. TransactionMetadata.txHash m = JStr h \<and> h \<noteq> []
             \<and> TransactionMetadata.ledger m = JNum n \<and> 0 \<le> n)"
proof -
  have nn: "\<forall>raw \<in> set raws. \<not> nullish raw"
    using assms(9) by (blast dest: getp_Inr_not_nullish)
  have raw_ok: "\<forall>raw \<in> set raws. \<exists>h n. optp raw ''id'' = JStr h \<and> h \<noteq> []
           \<and> optp raw ''ledger'' = JNum n \<and> 0 \<le> n"
  proof
    fix raw assume r: "raw \<in> set raws"
    then have "\<not> nullish raw" using nn by blast
    then have g: "getp raw ''id'' = Inr (optp raw ''id'')"
      "getp raw ''ledger'' = Inr (optp raw ''ledger'')"
      by (simp_all add: getp_optp)
    obtain h n where "getp raw ''id'' = Inr (JStr h)" "h \<noteq> []"
      "getp raw ''ledger'' = Inr (JNum n)" "0 \<le> n"
      using assms(9) r by blast
    then have "optp raw ''id'' = JStr h \<and> h \<noteq> []
           \<and> optp raw ''ledger'' = JNum n \<and> 0 \<le> n"
      using g by simp
    then show "\<exists>h n. optp raw ''id'' = JStr h \<and> h \<noteq> []
           \<and> optp raw ''ledger'' = JNum n \<and> 0 \<le> n"
      by blast
  qed
  have run: "transactions (fetchTransactions Contract fetch contractId options) =
      map (\<lambda>raw. \<lparr>TransactionMetadata.txHash = optp raw ''id'',
          TransactionMetadata.ledger = optp raw ''ledger'',
          TransactionMetadata.createdAt = optp raw ''createdAt'',
          TransactionMetadata.status = optp raw ''status'',
          applicationOrder = optp raw ''applicationOrder''\<rparr>) raws"
    using fetchTransactions_items_copied
      [where Contract = Contract and fetch = fetch, OF assms(1-8) nn] .
  show ?thesis
    using raw_ok by (simp add: run comp_def)
qed

theorem fetchTransactions_items_well_formed_witness:
  "map TransactionMetadata.txHash (transactions (fetchTransactions accepting_Contract
      (fixed_fetch (Inr (Response 200 (Some (JObj [(''jsonrpc'', JStr ''2.0''), (''id'', JNum 1),
         (''result'', JObj [(''transactions'', JArr [
             JObj [(''id'', JStr ''abc''), (''ledger'', JNum 5), (''createdAt'', JStr ''t''),
                   (''status'', JStr ''SUCCESS'')],
             JObj [(''id'', JStr ''def''), (''ledger'', JNum 4), (''createdAt'', JStr ''s''),
                   (''status'', JStr ''FAILED'')]]),
            (''latestLedger'', JNum 9), (''oldestLedger'', JNum 1)])])))))
      ''CA'' no_options)) = [JStr ''abc'', JStr ''def'']
   \<and> map TransactionMetadata.ledger (transactions (fetchTransactions accepting_Contract
      (fixed_fetch (Inr (Response 200 (Some (JObj [(''jsonrpc'', JStr ''2.0''), (''id'', JNum 1),
         (''result'', JObj [(''transactions'', JArr [
             JObj [(''id'', JStr ''abc''), (''ledger'', JNum 5), (''createdAt'', JStr ''t''),
                   (''status'', JStr ''SUCCESS'')],
             JObj [(''id'', JStr ''def''), (''ledger'', JNum 4), (''createdAt'', JStr ''s''),
                   (''status'', JStr ''FAILED'')]]),
            (''latestLedger'', JNum 9), (''oldestLedger'', JNum 1)])])))))
      ''CA'' no_options)) = [JNum 5, JNum 4]"
proof -
  let ?raws = "[JObj [(''id'', JStr ''abc''), (''ledger'', JNum 5), (''createdAt'', JStr ''t''),
                   (''status'', JStr ''SUCCESS'')],
             JObj [(''id'', JStr ''def''), (''ledger'', JNum 4), (''createdAt'', JStr ''s''),
                   (''status'', JStr ''FAILED'')]]"
  let ?res = "JObj [(''transactions'', JArr ?raws),
            (''latestLedger'', JNum 9), (''oldestLedger'', JNum 1)]"
  let ?data = "JObj [(''jsonrpc'', JStr ''2.0''), (''id'', JNum 1), (''result'', ?res)]"
  have h1: "accepting_Contract ''CA'' = Inr ''CA''"
    by (simp add: accepting_Contract_def)
  have h2: "fixed_fetch (Inr (Response 200 (Some ?data))) SOROBAN_RPC_URL
           (getTransactions_request ''CA'' no_options) = Inr (Response 200 (Some ?data))"
    by (simp add: fixed_fetch_def)
  have h3: "ok (Response 200 (Some ?data))" by (simp add: ok_def)
  have h4: "resp_body (Response 200 (Some ?data)) = Some ?data" by simp
  have h5: "getp ?data ''error'' = Inr JUndefined" by simp
  have h6: "\<not> truthy JUndefined" by simp
  have h7: "getp ?data ''result'' = Inr ?res" by simp
  have h8: "getp ?res ''transactions'' = Inr (JArr ?raws)" by simp
  have h9: "\<forall>raw \<in> set ?raws. \<exists>h n. getp raw ''id'' = Inr (JStr h) \<and> h \<noteq> []
           \<and> getp raw ''ledger'' = Inr (JNum n) \<and> 0 \<le> n"
    by simp
  show ?thesis
    using fetchTransactions_items_well_formed
      [where Contract = accepting_Contract
         and fetch = "fixed_fetch (Inr (Response 200 (Some ?data)))",
       OF h1 h2 h3 h4 h5 h6 h7 h8 h9]
    by simp
qed

text \<open>
  Outside that condition nothing is checked: a raw transaction with an empty id and a
  negative ledger is copied as it is.
\<close>

lemma fetchTransactions_items_unchecked_example:
  "transactions (fetchTransactions accepting_Contract
      (fixed_fetch (Inr (Response 200 (Some (JObj [(''jsonrpc'', JStr ''2.0''), (''id'', JNum 1),
         (''result'', JObj [(''transactions'', JArr [
             JObj [(''id'', JStr ''''), (''ledger'', JNum (- 1)), (''createdAt'', JStr ''t''),
                   (''status'', JStr ''SUCCESS'')]]),
            (''latestLedger'', JNum 9), (''oldestLedger'', JNum 1)])])))))
      ''CA'' no_options) =
     [\<lparr>TransactionMetadata.txHash = JStr '''', TransactionMetadata.ledger = JNum (- 1),
       TransactionMetadata.createdAt = JStr ''t'', TransactionMetadata.status = JStr ''SUCCESS'',
       applicationOrder = JUndefined\<rparr>]
   \<and> retentionNotice (fetchTransactions accepting_Contract
      (fixed_fetch (Inr (Response 200 (Some (JObj [(''jsonrpc'', JStr ''2.0''), (''id'', JNum 1),
         (''result'', JObj [(''transactions'', JArr [
             JObj [(''id'', JStr ''''), (''ledger'', JNum (- 1)), (''createdAt'', JStr ''t''),
                   (''status'', JStr ''SUCCESS'')]]),
            (''latestLedger'', JNum 9), (''oldestLedger'', JNum 1)])])))))
      ''CA'' no_options) = None"
  by (simp add: run_defs)

text \<open>
  Claim C8. A success answer whose result holds exactly one raw transaction with id
  "abc", ledger 5, createdAt "t" and status "SUCCESS" gives a listing of exactly one item
  with hash "abc", ledger 5, createdAt "t", status "SUCCESS" and the raw
  \<^verbatim>\<open>applicationOrder\<close>.
\<close>

theorem fetchTransactions_one_transaction:
  assumes "Contract contractId = Inr addr"
    and "fetch SOROBAN_RPC_URL (getTransactions_request addr options) = Inr resp"
    and "ok resp"
    and "resp_body resp = Some data"
    and "getp data ''error'' = Inr err"
    and "\<not> truthy err"
    and "getp data ''result'' = Inr res"
    and "getp res ''transactions'' = Inr (JArr [raw])"
    and "getp raw ''id'' = Inr (JStr ''abc'')"
    and "getp raw ''ledger'' = Inr (JNum 5)"
    and "getp raw ''createdAt'' = Inr (JStr ''t'')"
    and "getp raw ''status'' = Inr (JStr ''SUCCESS'')"
  shows "transactions (fetchTransactions Contract fetch contractId options) =
     [\<lparr>TransactionMetadata.txHash = JStr ''abc'', TransactionMetadata.ledger = JNum 5,
       TransactionMetadata.createdAt = JStr ''t'', TransactionMetadata.status = JStr ''SUCCESS'',
       applicationOrder = optp raw ''applicationOrder''\<rparr>]"
proof -
  have nn: "\<not> nullish raw" using assms(9) by (rule getp_Inr_not_nullish)
  then have all: "\<forall>r \<in> set [raw]. \<not> nullish r" by simp
  have flds: "optp raw ''id'' = JStr ''abc''" "optp raw ''ledger'' = JNum 5"
    "optp raw ''createdAt'' = JStr ''t''" "optp raw ''status'' = JStr ''SUCCESS''"
    using assms(9-12) by (simp_all add: getp_optp [OF nn])
  have "fetchTransactions_try Contract fetch contractId options = listing_of_result res"
    using fetchTransactions_try_success
        [where Contract = Contract and fetch = fetch, OF assms(1-6)] assms(7)
      by simp
  then show ?thesis
    by (simp add: fetchTransactions_def listing_of_result_array [OF assms(8) all] flds)
qed

theorem fetchTransactions_one_transaction_witness:
  "transactions (fetchTransactions accepting_Contract
      (fixed_fetch (Inr (Response 200 (Some (JObj [(''jsonrpc'', JStr ''2.0''), (''id'', JNum 1),
         (''result'', JObj [(''transactions'', JArr [
             JObj [(''id'', JStr ''abc''), (''ledger'', JNum 5), (''createdAt'', JStr ''t''),
                   (''status'', JStr ''SUCCESS'')]])])])))))
      ''CA'' no_options) =
     [\<lparr>TransactionMetadata.txHash = JStr ''abc'', TransactionMetadata.ledger = JNum 5,
       TransactionMetadata.createdAt = JStr ''t'', TransactionMetadata.status = JStr ''SUCCESS'',
       applicationOrder = JUndefined\<rparr>]"
proof -
  let ?raw = "JObj [(''id'', JStr ''abc''), (''ledger'', JNum 5), (''createdAt'', JStr ''t''),
                   (''status'', JStr ''SUCCESS'')]"
  let ?res = "JObj [(''transactions'', JArr [?raw])]"
  let ?data = "JObj [(''jsonrpc'', JStr ''2.0''), (''id'', JNum 1), (''result'', ?res)]"
  have h1: "accepting_Contract ''CA'' = Inr ''CA''"
    by (simp add: accepting_Contract_def)
  have h2: "fixed_fetch (Inr (Response 200 (Some ?data))) SOROBAN_RPC_URL
           (getTransactions_request ''CA'' no_options) = Inr (Response 200 (Some ?data))"
    by (simp add: fixed_fetch_def)
  have h3: "ok (Response 200 (Some ?data))" by (simp add: ok_def)
  have h4: "resp_body (Response 200 (Some ?data)) = Some ?data" by simp
  have h5: "getp ?data ''error'' = Inr JUndefined" by simp
  have h6: "\<not> truthy JUndefined" by simp
  have h7: "getp ?data ''result'' = Inr ?res" by simp
  have h8: "getp ?res ''transactions'' = Inr (JArr [?raw])" by simp
  have h9: "getp ?raw ''id'' = Inr (JStr ''abc'')" by simp
  have h10: "getp ?raw ''ledger'' = Inr (JNum 5)" by simp
  have h11: "getp ?raw ''createdAt'' = Inr (JStr ''t'')" by simp
  have h12: "getp ?raw ''status'' = Inr (JStr ''SUCCESS'')" by simp
  show ?thesis
    using fetchTransactions_one_transaction
      [where Contract = accepting_Contract
         and fetch = "fixed_fetch (Inr (Response 200 (Some ?data)))",
       OF h1 h2 h3 h4 h5 h6 h7 h8 h9 h10 h11 h12]
    by simp
qed

section \<open>Properties of the transaction details\<close>

lemma findE_none:
  "\<forall>op \<in> set ops. \<forall>v. f op = Inr v \<longrightarrow> \<not> truthy v \<Longrightarrow>
   (\<exists>e. findE f ops = Inl e) \<or> findE f ops = Inr JUndefined"
  by (induction ops) (auto split: sum.splits)

lemma js_find_none:
  assumes "\<forall>ops. v = JArr ops \<longrightarrow> (\<forall>op \<in> set ops. \<forall>w. f op = Inr w \<longrightarrow> \<not> truthy w)"
  shows "(\<exists>e. js_find v f = Inl e) \<or> js_find v f = Inr JUndefined"
proof (cases v)
  case (JArr ops)
  then show ?thesis using assms findE_none [of ops f] by simp
qed simp_all

lemma extract_call_no_invoke:
  assumes "\<forall>ops. operations tx = Inr (JArr ops)
             \<longrightarrow> (\<forall>op \<in> set ops. \<forall>v. is_invoke op = Inr v \<longrightarrow> \<not> truthy v)"
  shows "\<exists>r. extract_call tx = (JUndefined, JUndefined, r)"
proof (cases "operations tx")
  case (Inl e)
  then show ?thesis by (simp add: extract_call_def)
next
  case (Inr v)
  have "(\<exists>e. js_find v is_invoke = Inl e) \<or> js_find v is_invoke = Inr JUndefined"
    using assms Inr by (intro js_find_none) simp
  then show ?thesis
    using Inr by (auto simp add: extract_call_def assign_call_def)
qed

lemma details_of_result_truthy:
  assumes "truthy tx"
  shows "\<exists>d. details_of_result tx = Inr d
    \<and> (calledFunction d, args d, result d) =
        (if truthy (optp tx ''resultMetaXdr'') \<and> truthy (optp tx ''meta'')
         then extract_call tx else (JUndefined, JUndefined, JUndefined))"
proof -
  have nn: "\<not> nullish tx" using assms by (rule truthy_not_nullish)
  show ?thesis
    by (cases "extract_call tx")
      (simp add: details_of_result_def extract_signers_def getp_optp [OF nn])
qed

lemma fetchTransactionDetails_success:
  assumes "fetch SOROBAN_RPC_URL (getTransaction_request h) = Inr resp"
    and "ok resp"
    and "resp_body resp = Some data"
    and "getp data ''error'' = Inr err"
    and "\<not> truthy err"
    and "getp data ''result'' = Inr tx"
    and "truthy tx"
    and "details_of_result tx = Inr d"
  shows "fetchTransactionDetails fetch h = Some d"
  using assms
  by (simp add: fetchTransactionDetails_def fetchTransactionDetails_try_def json_def)

text \<open>
  Claim C6. \<^verbatim>\<open>fetchTransactionDetails\<close> returns \<^verbatim>\<open>null\<close> when the request throws,
  the status is not 2xx, the body is not JSON, the answer carries an error, or the
  answer has no result payload.
\<close>

theorem fetchTransactionDetails_not_found:
  assumes "fetch SOROBAN_RPC_URL (getTransaction_request h) = Inl e
    \<or> (fetch SOROBAN_RPC_URL (getTransaction_request h) = Inr resp
        \<and> (\<not> ok resp
           \<or> resp_body resp = None
           \<or> (resp_body resp = Some data \<and> getp data ''error'' = Inr err \<and> truthy err)
           \<or> (resp_body resp = Some data \<and> getp data ''error'' = Inr err \<and> \<not> truthy err
               \<and> getp data ''result'' = Inr tx \<and> \<not> truthy tx)))"
  shows "fetchTransactionDetails fetch h = None"
  using assms
  by (auto simp add: fetchTransactionDetails_def fetchTransactionDetails_try_def json_def)

theorem fetchTransactionDetails_not_found_witness:
  "fetchTransactionDetails
     (fixed_fetch (Inr (Response 200 (Some (JObj [(''jsonrpc'', JStr ''2.0''), (''id'', JNum 2)])))))
     ''h1'' = None"
proof -
  let ?data = "JObj [(''jsonrpc'', JStr ''2.0''), (''id'', JNum 2)]"
  have h: "fixed_fetch (Inr (Response 200 (Some ?data))) SOROBAN_RPC_URL
             (getTransaction_request ''h1'') = Inr (Response 200 (Some ?data))
      \<and> resp_body (Response 200 (Some ?data)) = Some ?data
      \<and> getp ?data ''error'' = Inr JUndefined \<and> \<not> truthy JUndefined
      \<and> getp ?data ''result'' = Inr JUndefined"
    by (simp add: fixed_fetch_def)
  show ?thesis
    using fetchTransactionDetails_not_found
      [where fetch = "fixed_fetch (Inr (Response 200 (Some ?data)))" and h = "''h1''"
         and resp = "Response 200 (Some ?data)" and data = ?data and err = JUndefined
         and tx = JUndefined and e = TypeError] h
    by simp
qed

text \<open>
  Claim C7. For a success answer with a result payload whose operation list holds no
  operation with an invoke-host-function body, the call returns a details object (it
  does not return \<^verbatim>\<open>null\<close>) in which \<open>calledFunction\<close> and \<open>args\<close> are absent.
\<close>

theorem fetchTransactionDetails_no_invoke:
  assumes "fetch SOROBAN_RPC_URL (getTransaction_request h) = Inr resp"
    and "ok resp"
    and "resp_body resp = Some data"
    and "getp data ''error'' = Inr err"
    and "\<not> truthy err"
    and "getp data ''result'' = Inr tx"
    and "truthy tx"
    and "\<forall>ops. operations tx = Inr (JArr ops)
           \<longrightarrow> (\<forall>op \<in> set ops. \<forall>v. is_invoke op = Inr v \<longrightarrow> \<not> truthy v)"
  shows "map_option calledFunction (fetchTransactionDetails fetch h) = Some JUndefined
       \<and> map_option args (fetchTransactionDetails fetch h) = Some JUndefined"
proof -
  obtain d where d: "details_of_result tx = Inr d"
    and c: "(calledFunction d, args d, result d) =
        (if truthy (optp tx ''resultMetaXdr'') \<and> truthy (optp tx ''meta'')
         then extract_call tx else (JUndefined, JUndefined, JUndefined))"
    using details_of_result_truthy [OF assms(7)] by blast
  obtain r where "extract_call tx = (JUndefined, JUndefined, r)"
    using extract_call_no_invoke [OF assms(8)] by blast
  then have "calledFunction d = JUndefined \<and> args d = JUndefined"
    using c by (simp split: if_splits)
  then show ?thesis
    using fetchTransactionDetails_success [where fetch = fetch, OF assms(1-7) d] by simp
qed

text \<open>
  Claim C10. When the result payload has no truthy \<^verbatim>\<open>resultMetaXdr\<close> or no truthy
  \<^verbatim>\<open>meta\<close> (in particular when either field is missing), the extraction is skipped:
  \<open>calledFunction\<close>, \<open>args\<close> and \<open>result\<close> are all absent, whatever the envelope holds.
\<close>

theorem fetchTransactionDetails_extraction_gate:
  assumes "fetch SOROBAN_RPC_URL (getTransaction_request h) = Inr resp"
    and "ok resp"
    and "resp_body resp = Some data"
    and "getp data ''error'' = Inr err"
    and "\<not> truthy err"
    and "getp data ''result'' = Inr tx"
    and "truthy tx"
    and "\<not> truthy (optp tx ''resultMetaXdr'') \<or> \<not> truthy (optp tx ''meta'')"
  shows "map_option calledFunction (fetchTransactionDetails fetch h) = Some JUndefined
       \<and> map_option args (fetchTransactionDetails fetch h) = Some JUndefined
       \<and> map_option result (fetchTransactionDetails fetch h) = Some JUndefined"
proof -
  obtain d where d: "details_of_result tx = Inr d"
    and c: "(calledFunction d, args d, result d) =
        (if truthy (optp tx ''resultMetaXdr'') \<and> truthy (optp tx ''meta'')
         then extract_call tx else (JUndefined, JUndefined, JUndefined))"
    using details_of_result_truthy [OF assms(7)] by blast
  have "calledFunction d = JUndefined \<and> args d = JUndefined \<and> result d = JUndefined"
    using c assms(8) by (auto split: if_splits)
  then show ?thesis
    using fetchTransactionDetails_success [where fetch = fetch, OF assms(1-7) d] by simp
qed


lemmas details_run_defs =
  fetchTransactionDetails_def fetchTransactionDetails_try_def fixed_fetch_def ok_def json_def
  details_of_result_def extract_signers_def extract_call_def operations_def is_invoke_def
  assign_call_def assign_result_def js_or_def

theorem fetchTransactionDetails_no_invoke_witness:
  "map_option calledFunction (fetchTransactionDetails
     (fixed_fetch (Inr (Response 200 (Some (JObj [(''jsonrpc'', JStr ''2.0''), (''id'', JNum 2),
        (''result'', JObj [(''id'', JStr ''h1''), (''ledger'', JNum 5), (''createdAt'', JStr ''t''),
           (''status'', JStr ''SUCCESS''), (''envelopeXdr'', JStr ''AAAA''),
           (''resultMetaXdr'', JStr ''AAAB''),
           (''envelope'', JObj [(''v1'', JObj [(''tx'', JObj [(''operations'',
               JArr [JObj [(''body'', JObj [(''payment'', JObj [(''amount'', JNum 1)])])]])])])]),
           (''meta'', JObj [(''v3'', JObj [(''sorobanMeta'',
               JObj [(''returnValue'', JObj [(''u32'', JNum 1)])])])])])])))))
     ''h1'') = Some JUndefined
   \<and> map_option args (fetchTransactionDetails
     (fixed_fetch (Inr (Response 200 (Some (JObj [(''jsonrpc'', JStr ''2.0''), (''id'', JNum 2),
        (''result'', JObj [(''id'', JStr ''h1''), (''ledger'', JNum 5), (''createdAt'', JStr ''t''),
           (''status'', JStr ''SUCCESS''), (''envelopeXdr'', JStr ''AAAA''),
           (''resultMetaXdr'', JStr ''AAAB''),
           (''envelope'', JObj [(''v1'', JObj [(''tx'', JObj [(''operations'',
               JArr [JObj [(''body'', JObj [(''payment'', JObj [(''amount'', JNum 1)])])]])])])]),
           (''meta'', JObj [(''v3'', JObj [(''sorobanMeta'',
               JObj [(''returnValue'', JObj [(''u32'', JNum 1)])])])])])])))))
     ''h1'') = Some JUndefined"
proof -
  let ?tx = "JObj [(''id'', JStr ''h1''), (''ledger'', JNum 5), (''createdAt'', JStr ''t''),
           (''status'', JStr ''SUCCESS''), (''envelopeXdr'', JStr ''AAAA''),
           (''resultMetaXdr'', JStr ''AAAB''),
           (''envelope'', JObj [(''v1'', JObj [(''tx'', JObj [(''operations'',
               JArr [JObj [(''body'', JObj [(''payment'', JObj [(''amount'', JNum 1)])])]])])])]),
           (''meta'', JObj [(''v3'', JObj [(''sorobanMeta'',
               JObj [(''returnValue'', JObj [(''u32'', JNum 1)])])])])]"
  let ?data = "JObj [(''jsonrpc'', JStr ''2.0''), (''id'', JNum 2), (''result'', ?tx)]"
  have h1: "fixed_fetch (Inr (Response 200 (Some ?data))) SOROBAN_RPC_URL
             (getTransaction_request ''h1'') = Inr (Response 200 (Some ?data))"
    by (simp add: fixed_fetch_def)
  have h2: "ok (Response 200 (Some ?data))" by (simp add: ok_def)
  have h3: "resp_body (Response 200 (Some ?data)) = Some ?data" by simp
  have h4: "getp ?data ''error'' = Inr JUndefined" by simp
  have h5: "\<not> truthy JUndefined" by simp
  have h6: "getp ?data ''result'' = Inr ?tx" by simp
  have h7: "truthy ?tx" by simp
  have h8: "\<forall>ops. operations ?tx = Inr (JArr ops)
           \<longrightarrow> (\<forall>op \<in> set ops. \<forall>v. is_invoke op = Inr v \<longrightarrow> \<not> truthy v)"
    by (auto simp add: operations_def is_invoke_def js_or_def)
  show ?thesis
    using fetchTransactionDetails_no_invoke
      [where fetch = "fixed_fetch (Inr (Response 200 (Some ?data)))",
       OF h1 h2 h3 h4 h5 h6 h7 h8]
    by simp
qed

theorem fetchTransactionDetails_extraction_gate_witness:
  "map_option calledFunction (fetchTransactionDetails
     (fixed_fetch (Inr (Response 200 (Some (JObj [(''jsonrpc'', JStr ''2.0''), (''id'', JNum 2),
        (''result'', JObj [(''id'', JStr ''h1''), (''ledger'', JNum 5), (''createdAt'', JStr ''t''),
           (''status'', JStr ''SUCCESS''), (''envelopeXdr'', JStr ''AAAA''),
           (''envelope'', JObj [(''v1'', JObj [(''tx'', JObj [(''operations'',
               JArr [JObj [(''body'', JObj [(''invokeHostFunction'', JObj [(''hostFunction'',
                 JObj [(''invokeContract'', JObj [(''functionName'', JStr ''deposit''),
                   (''args'', JArr [JNum 7])])])])])]])])])]),
           (''meta'', JObj [(''v3'', JObj [(''sorobanMeta'',
               JObj [(''returnValue'', JObj [(''u32'', JNum 1)])])])])])])))))
     ''h1'') = Some JUndefined
   \<and> map_option result (fetchTransactionDetails
     (fixed_fetch (Inr (Response 200 (Some (JObj [(''jsonrpc'', JStr ''2.0''), (''id'', JNum 2),
        (''result'', JObj [(''id'', JStr ''h1''), (''ledger'', JNum 5), (''createdAt'', JStr ''t''),
           (''status'', JStr ''SUCCESS''), (''envelopeXdr'', JStr ''AAAA''),
           (''envelope'', JObj [(''v1'', JObj [(''tx'', JObj [(''operations'',
               JArr [JObj [(''body'', JObj [(''invokeHostFunction'', JObj [(''hostFunction'',
                 JObj [(''invokeContract'', JObj [(''functionName'', JStr ''deposit''),
                   (''args'', JArr [JNum 7])])])])])]])])])]),
           (''meta'', JObj [(''v3'', JObj [(''sorobanMeta'',
               JObj [(''returnValue'', JObj [(''u32'', JNum 1)])])])])])])))))
     ''h1'') = Some JUndefined"
proof -
  let ?tx = "JObj [(''id'', JStr ''h1''), (''ledger'', JNum 5), (''createdAt'', JStr ''t''),
           (''status'', JStr ''SUCCESS''), (''envelopeXdr'', JStr ''AAAA''),
           (''envelope'', JObj [(''v1'', JObj [(''tx'', JObj [(''operations'',
               JArr [JObj [(''body'', JObj [(''invokeHostFunction'', JObj [(''hostFunction'',
                 JObj [(''invokeContract'', JObj [(''functionName'', JStr ''deposit''),
                   (''args'', JArr [JNum 7])])])])])]])])])]),
           (''meta'', JObj [(''v3'', JObj [(''sorobanMeta'',
               JObj [(''returnValue'', JObj [(''u32'', JNum 1)])])])])]"
  let ?data = "JObj [(''jsonrpc'', JStr ''2.0''), (''id'', JNum 2), (''result'', ?tx)]"
  have h1: "fixed_fetch (Inr (Response 200 (Some ?data))) SOROBAN_RPC_URL
             (getTransaction_request ''h1'') = Inr (Response 200 (Some ?data))"
    by (simp add: fixed_fetch_def)
  have h2: "ok (Response 200 (Some ?data))" by (simp add: ok_def)
  have h3: "resp_body (Response 200 (Some ?data)) = Some ?data" by simp
  have h4: "getp ?data ''error'' = Inr JUndefined" by simp
  have h5: "\<not> truthy JUndefined" by simp
  have h6: "getp ?data ''result'' = Inr ?tx" by simp
  have h7: "truthy ?tx" by simp
  have h8: "\<not> truthy (optp ?tx ''resultMetaXdr'') \<or> \<not> truthy (optp ?tx ''meta'')"
    by simp
  show ?thesis
    using fetchTransactionDetails_extraction_gate
      [where fetch = "fixed_fetch (Inr (Response 200 (Some ?data)))",
       OF h1 h2 h3 h4 h5 h6 h7 h8]
    by simp
qed

text \<open>
  The same payload with \<^verbatim>\<open>resultMetaXdr\<close> present: now the extraction runs and finds
  the function name, its arguments and the return value.
\<close>

lemma fetchTransactionDetails_extraction_example:
  "map_option calledFunction (fetchTransactionDetails
     (fixed_fetch (Inr (Response 200 (Some (JObj [(''jsonrpc'', JStr ''2.0''), (''id'', JNum 2),
        (''result'', JObj [(''id'', JStr ''h1''), (''ledger'', JNum 5), (''createdAt'', JStr ''t''),
           (''status'', JStr ''SUCCESS''), (''envelopeXdr'', JStr ''AAAA''),
           (''resultMetaXdr'', JStr ''AAAB''),
           (''envelope'', JObj [(''v1'', JObj [(''tx'', JObj [(''operations'',
               JArr [JObj [(''body'', JObj [(''invokeHostFunction'', JObj [(''hostFunction'',
                 JObj [(''invokeContract'', JObj [(''functionName'', JStr ''deposit''),
                   (''args'', JArr [JNum 7])])])])])]])])])]),
           (''meta'', JObj [(''v3'', JObj [(''sorobanMeta'',
               JObj [(''returnValue'', JObj [(''u32'', JNum 1)])])])])])])))))
     ''h1'') = Some (JStr ''deposit'')
   \<and> map_option args (fetchTransactionDetails
     (fixed_fetch (Inr (Response 200 (Some (JObj [(''jsonrpc'', JStr ''2.0''), (''id'', JNum 2),
        (''result'', JObj [(''id'', JStr ''h1''), (''ledger'', JNum 5), (''createdAt'', JStr ''t''),
           (''status'', JStr ''SUCCESS''), (''envelopeXdr'', JStr ''AAAA''),
           (''resultMetaXdr'', JStr ''AAAB''),
           (''envelope'', JObj [(''v1'', JObj [(''tx'', JObj [(''operations'',
               JArr [JObj [(''body'', JObj [(''invokeHostFunction'', JObj [(''hostFunction'',
                 JObj [(''invokeContract'', JObj [(''functionName'', JStr ''deposit''),
                   (''args'', JArr [JNum 7])])])])])]])])])]),
           (''meta'', JObj [(''v3'', JObj [(''sorobanMeta'',
               JObj [(''returnValue'', JObj [(''u32'', JNum 1)])])])])])])))))
     ''h1'') = Some (JArr [JNum 7])
   \<and> map_option result (fetchTransactionDetails
     (fixed_fetch (Inr (Response 200 (Some (JObj [(''jsonrpc'', JStr ''2.0''), (''id'', JNum 2),
        (''result'', JObj [(''id'', JStr ''h1''), (''ledger'', JNum 5), (''createdAt'', JStr ''t''),
           (''status'', JStr ''SUCCESS''), (''envelopeXdr'', JStr ''AAAA''),
           (''resultMetaXdr'', JStr ''AAAB''),
           (''envelope'', JObj [(''v1'', JObj [(''tx'', JObj [(''operations'',
               JArr [JObj [(''body'', JObj [(''invokeHostFunction'', JObj [(''hostFunction'',
                 JObj [(''invokeContract'', JObj [(''functionName'', JStr ''deposit''),
                   (''args'', JArr [JNum 7])])])])])]])])])]),
           (''meta'', JObj [(''v3'', JObj [(''sorobanMeta'',
               JObj [(''returnValue'', JObj [(''u32'', JNum 1)])])])])])])))))
     ''h1'') = Some (JObj [(''u32'', JNum 1)])"
  by (simp add: details_run_defs)

end
